theory Spec2Isabelle
  imports Main "HOL-Library.Word"
begin

section \<open>Secure ruleset update: rulesetUpdate.js\<close>

text \<open>
  A shallow embedding of \<^verbatim>\<open>src/chrome/content/code/rulesetUpdate.js\<close>.
  JavaScript strings are modelled as \<open>string\<close> (one \<open>char\<close> per code unit, ASCII range),
  bytes as \<open>8 word\<close>, JavaScript numbers that count or index as \<open>nat\<close>/\<open>int\<close>.
  Every platform service the file calls (preferences, HTTP, JSON, the version comparator,
  the signature verifier, the hash service, SQLite) is a field of an environment record
  or of the world state; an exception that no handler of the file catches is the
  \<open>Inl\<close> branch of a result.
\<close>

subsection \<open>JavaScript values and string primitives\<close>

type_synonym byte = "8 word"

datatype jsval =
    Undefined
  | JNull
  | JBool bool
  | JNum int
  | JStr string
  | JArr "jsval list"
  | JObj "(string \<times> jsval) list"

datatype exn =
    SyntaxError          \<comment> \<open>\<open>JSON.parse\<close> on an unparsable text\<close>
  | TypeError            \<comment> \<open>property read on \<open>null\<close>/\<open>undefined\<close>, call of a non-function\<close>
  | PrefError            \<comment> \<open>\<open>getCharPref\<close> on a preference that is not set\<close>
  | VerifierError        \<comment> \<open>\<open>verifyData\<close> raising on undecodable input\<close>
  | FileError            \<comment> \<open>a file stream that cannot be opened or read to the asked length\<close>
  | StorageError         \<comment> \<open>a database that cannot be opened, a statement that cannot be prepared\<close>
  | BadInterface         \<comment> \<open>\<open>createInstance\<close> for an interface the platform does not know\<close>

text \<open>\<open>s.lastIndexOf(c)\<close>: the index of the last occurrence, or \<open>-1\<close>.\<close>

fun lastIndexOf :: "'a list \<Rightarrow> 'a \<Rightarrow> int" where
  "lastIndexOf [] c = - 1"
| "lastIndexOf (x # xs) c =
     (let r = lastIndexOf xs c
      in if 0 \<le> r then r + 1 else if x = c then 0 else - 1)"

text \<open>
  The relative index of \<open>slice\<close>: a negative index counts from the end, and both ends
  are clamped to the length.
\<close>

definition relIndex :: "nat \<Rightarrow> int \<Rightarrow> nat" where
  "relIndex n i = (if i < 0 then nat (max (int n + i) 0) else min (nat i) n)"

text \<open>\<open>s.slice(b, e)\<close> and \<open>s.slice(b)\<close>.\<close>

definition slice_js :: "'a list \<Rightarrow> int \<Rightarrow> int \<Rightarrow> 'a list" where
  "slice_js s b e = (let n = length s; from = relIndex n b; to = relIndex n e
                  in take (to - from) (drop from s))"

definition sliceFrom :: "'a list \<Rightarrow> int \<Rightarrow> 'a list" where
  "sliceFrom s b = drop (relIndex (length s) b) s"

text \<open>\<open>s.trim()\<close>: strips the white space of the ASCII range at both ends.\<close>

definition isWhiteSpace :: "char \<Rightarrow> bool" where
  "isWhiteSpace c = (of_char c \<in> {9, 10, 11, 12, 13, 32 :: nat})"

definition trim :: "string \<Rightarrow> string" where
  "trim s = rev (dropWhile isWhiteSpace (rev (dropWhile isWhiteSpace s)))"

text \<open>\<open>n.toString(16)\<close> and the decimal rendering of a non-negative integer.\<close>

definition hexDigit :: "nat \<Rightarrow> char" where
  "hexDigit d = ''0123456789abcdef'' ! (d mod 16)"

function toString16 :: "nat \<Rightarrow> string" where
  "toString16 n = (if n < 16 then [hexDigit n] else toString16 (n div 16) @ [hexDigit (n mod 16)])"
  by pat_completeness auto
termination
  by (relation "measure id") auto

function toString10 :: "nat \<Rightarrow> string" where
  "toString10 n = (if n < 10 then [hexDigit n] else toString10 (n div 10) @ [hexDigit (n mod 10)])"
  by pat_completeness auto
termination
  by (relation "measure id") auto

declare toString16.simps [simp del] toString10.simps [simp del]

subsection \<open>The platform\<close>

datatype hashAlg = MD5 | SHA1 | SHA256 | SHA384 | SHA512

datatype xhrOutcome =
    NoLoad                         \<comment> \<open>the request fails: \<open>onload\<close> never fires\<close>
  | Load "byte list option"        \<comment> \<open>\<open>onload\<close> fires; \<open>xhr.response\<close> is \<open>null\<close> or a buffer\<close>

text \<open>
  The tables of a ruleset database; \<open>None\<close> is a table that does not exist.
\<close>

record db =
  targets :: "(string \<times> int) list option"
  rulesets :: "string list option"

text \<open>
  What the file asks of the platform, as functions: none of them is defined in the file.
  \<^item> \<open>try_request n method url\<close>: the response text the retried request hands to its
    callback, \<open>None\<close> when the attempts are used up and the callback is never called;
  \<^item> \<open>JSON_parse\<close>: \<open>None\<close> is the \<open>SyntaxError\<close>;
  \<^item> \<open>verCompare\<close>: \<open>nsIVersionComparator.compare\<close>;
  \<^item> \<open>verifyData data signature key\<close>: \<open>nsIDataSignatureVerifier.verifyData\<close>;
  \<^item> \<open>cryptoHash\<close>: the digest \<open>nsICryptoHash\<close> computes, one byte per character of
    the binary string that \<open>finish(false)\<close> returns;
  \<^item> \<open>xhr_send\<close>: what the \<open>GET\<close> of a URL ends in;
  \<^item> \<open>openDatabase\<close>: the tables SQLite finds in a file of these bytes (\<open>None\<close>: the
    file is not there or not a database, and opening raises);
  \<^item> \<open>toStringJS\<close>: the string conversion of a value that is not a string;
  \<^item> \<open>knownInterface\<close>: whether \<open>Ci\<close> has an interface of this name.
\<close>

record env =
  try_request :: "nat \<Rightarrow> string \<Rightarrow> string \<Rightarrow> string option"
  JSON_parse :: "string \<Rightarrow> jsval option"
  verCompare :: "string \<Rightarrow> string \<Rightarrow> int"
  verifyData :: "string \<Rightarrow> string \<Rightarrow> string \<Rightarrow> exn + bool"
  cryptoHash :: "hashAlg \<Rightarrow> byte list \<Rightarrow> byte list"
  xhr_send :: "string \<Rightarrow> xhrOutcome"
  openDatabase :: "byte list option \<Rightarrow> db option"
  toStringJS :: "jsval \<Rightarrow> string"
  knownInterface :: "string \<Rightarrow> bool"

definition ToString :: "('z) env_scheme \<Rightarrow> jsval \<Rightarrow> string" where
  "ToString E v = (case v of JStr s \<Rightarrow> s | _ \<Rightarrow> toStringJS E v)"

subsection \<open>hashBinaryFile\<close>

text \<open>The local function \<open>toHexStr\<close> of \<open>hashBinaryFile\<close>.\<close>

definition toHexStr :: "nat \<Rightarrow> string" where
  "toHexStr charCode = sliceFrom (CHR ''0'' # toString16 charCode) (- 2)"

definition hashInit :: "jsval \<Rightarrow> hashAlg option" where
  "hashInit hashfn =
     (if hashfn = JStr ''md5'' then Some MD5
      else if hashfn = JStr ''sha1'' then Some SHA1
      else if hashfn = JStr ''sha256'' then Some SHA256
      else if hashfn = JStr ''sha384'' then Some SHA384
      else if hashfn = JStr ''sha512'' then Some SHA512
      else None)"

text \<open>
  \<open>hashBinaryFile(path, length, hashfn)\<close> over the files \<open>fs\<close>. The result \<open>Inr None\<close>
  is the returned \<open>null\<close>. The stream is opened after the algorithm is chosen; opening a
  file that is not there raises, and so does \<open>updateFromStream\<close> when the file holds
  fewer than \<open>length\<close> bytes.
\<close>

definition hashBinaryFile ::
  "('z) env_scheme \<Rightarrow> (string \<Rightarrow> byte list option) \<Rightarrow> string \<Rightarrow> nat \<Rightarrow> jsval \<Rightarrow> exn + string option" where
  "hashBinaryFile E fs path len hashfn =
     (case hashInit hashfn of
        None \<Rightarrow> Inr None
      | Some alg \<Rightarrow>
          (case fs path of
             None \<Rightarrow> Inl FileError
           | Some content \<Rightarrow>
               if length content < len then Inl FileError
               else let hash = cryptoHash E alg (take len content)
                    in Inr (Some (concat (map (\<lambda>c. toHexStr (unat c)) hash)))))"

subsection \<open>Constants of the file\<close>

definition RULESET_UPDATE_KEY :: string where
  "RULESET_UPDATE_KEY =
     ''MIIBIjANBgkqhkiG9w0BAQEFAAOCAQ8AMIIBCgKCAQEA7wJz/Ekn4loB+GX/TnObTo/5J0/aq1hBl'' @
     ''+xeSyCUX/fggjju5jnRnbnQx10OaZ655Yft4Cs2IfdIh95NYsN+gfi6HVesy/Q9G72BjhpW6+gTlk'' @
     ''W9vW56xwjv+Cpi5/20SKbvMZCMXTvR50HqLaLiOeLyAOQv06FKlyF5kbgQwpayExii75KFJL3HlH5'' @
     ''+mZfNfKElNK9Oyiig7sqnVTOdovNCFnW8zom2fS3YyODaFvPUSmo1Yd7Mr0xWjE5rAV7k70aZlR1N'' @
     ''Eze/Tfcf42LEhY5XkflczIWh+cse/v/sbZadS9jxbD2SgEJuLatF5zupmd0acvj1II8do2RE95FQC'' @
     ''QIDAQAB''"

definition BRANCH_PREF :: string where
  "BRANCH_PREF = ''extensions.https_everywhere.branch_name''"

definition VERSION_PREF :: string where
  "VERSION_PREF = ''extensions.https_everywhere.release_version''"

definition RULESET_VERSION_PREF :: string where
  "RULESET_VERSION_PREF = ''extensions.https_everywhere.ruleset_version''"

definition RSUPDATE_URL_PREF :: string where
  "RSUPDATE_URL_PREF = ''extensions.https_everywhere.ruleset_update_url''"

definition RSUPDATE_SIG_URL_PREF :: string where
  "RSUPDATE_SIG_URL_PREF = ''extensions.https_everywhere.ruleset_update_signature_url''"

text \<open>
  \<open>OS.Path.join(OS.Constants.Path.tmpDir, "new_rulesets.sqlite")\<close>, with the temporary
  directory written \<open>/tmp\<close>.
\<close>

definition TMP_RULESET_DBFILE_PATH :: string where
  "TMP_RULESET_DBFILE_PATH = ''/tmp'' @ ''/'' @ ''new_rulesets.sqlite''"

definition MAX_RSUPDATE_FETCHES :: nat where
  "MAX_RSUPDATE_FETCHES = 6"

subsection \<open>The world the updater acts on\<close>

datatype level = INFO | NOTE | WARN

text \<open>
  \<^item> \<open>prefs\<close>: the preference branch \<open>_prefs\<close>;
  \<^item> \<open>files\<close>: the local files, by path;
  \<^item> \<open>liveDB\<close>: the tables of \<open>chrome://https-everywhere/content/rulesets.sqlite\<close>;
  \<^item> \<open>logged\<close>: the calls of \<open>https_everywhereLog\<close>, in order;
  \<^item> \<open>requests\<close>: the calls of \<open>try_request\<close> (attempts, method, URL), in order;
  \<^item> \<open>xhrs\<close>: the requests opened by \<open>fetchRulesetDBFile\<close> (method, URL);
  \<^item> \<open>sigChecks\<close>: the calls of \<open>verifyData\<close> (data, signature, key);
  \<^item> \<open>reinits\<close>: the number of calls of \<open>HTTPSRules.init\<close>.
\<close>

record world =
  prefs :: "string \<Rightarrow> string option"
  files :: "string \<Rightarrow> byte list option"
  liveDB :: db
  logged :: "(level \<times> string) list"
  requests :: "(nat \<times> string \<times> string) list"
  xhrs :: "(string \<times> string) list"
  sigChecks :: "(string \<times> string \<times> string) list"
  reinits :: nat

definition https_everywhereLog :: "level \<Rightarrow> string \<Rightarrow> world \<Rightarrow> world" where
  "https_everywhereLog lvl msg w = w\<lparr>logged := logged w @ [(lvl, msg)]\<rparr>"

text \<open>\<open>_prefs.getCharPref(name)\<close> raises when the preference has no value.\<close>

definition getCharPref :: "world \<Rightarrow> string \<Rightarrow> exn + string" where
  "getCharPref w name = (case prefs w name of None \<Rightarrow> Inl PrefError | Some v \<Rightarrow> Inr v)"

text \<open>
  The property read \<open>v.name\<close>, for the names the file reads (\<open>version\<close>, \<open>branch\<close>,
  \<open>source\<close>, \<open>hashfn\<close>, \<open>hash\<close>): a \<open>TypeError\<close> on \<open>null\<close> and \<open>undefined\<close>, the
  member of an object (each key once, as \<open>JSON.parse\<close> builds it), \<open>undefined\<close> on
  every other value.
\<close>

definition getProp :: "jsval \<Rightarrow> string \<Rightarrow> exn + jsval" where
  "getProp v name =
     (case v of
        Undefined \<Rightarrow> Inl TypeError
      | JNull \<Rightarrow> Inl TypeError
      | JObj kvs \<Rightarrow> (case map_of kvs name of None \<Rightarrow> Inr Undefined | Some x \<Rightarrow> Inr x)
      | _ \<Rightarrow> Inr Undefined)"

text \<open>\<open>s.charCodeAt(i)\<close> converted to a string: \<open>NaN\<close> when \<open>i\<close> is out of range.\<close>

definition charCodeAtStr :: "string \<Rightarrow> int \<Rightarrow> string" where
  "charCodeAtStr s i =
     (if 0 \<le> i \<and> i < int (length s) then toString10 (of_char (s ! nat i)) else ''NaN'')"

subsection \<open>checkVersionRequirements and verifyUpdateSignature\<close>

text \<open>
  \<open>newVersion.slice(0, newVersion.lastIndexOf('.'))\<close>: strings and arrays have both
  methods, any other value raises a \<open>TypeError\<close>.
\<close>

definition versionPrefix :: "jsval \<Rightarrow> exn + jsval" where
  "versionPrefix newVersion =
     (case newVersion of
        JStr s \<Rightarrow> Inr (JStr (slice_js s 0 (lastIndexOf s CHR ''.'')))
      | JArr xs \<Rightarrow> Inr (JArr (slice_js xs 0 (lastIndexOf xs (JStr ''.''))))
      | _ \<Rightarrow> Inl TypeError)"

definition checkVersionRequirements ::
  "('z) env_scheme \<Rightarrow> string \<Rightarrow> string \<Rightarrow> jsval \<Rightarrow> world \<Rightarrow> (exn + bool) \<times> world" where
  "checkVersionRequirements E extVersion rsVersion newVersion w =
     (let w1 = https_everywhereLog INFO
                 (''Checking version requirements with extension version '' @ extVersion @
                  '' and ruleset version '' @ rsVersion) w
      in case versionPrefix newVersion of
           Inl e \<Rightarrow> (Inl e, w1)
         | Inr newRulesetExtVer \<Rightarrow>
             (let sameExtVer = (verCompare E extVersion (ToString E newRulesetExtVer) = 0);
                  newRSVer = (verCompare E (ToString E newVersion) rsVersion > 0)
              in (Inr (sameExtVer \<and> newRSVer), w1)))"

definition verifyUpdateSignature ::
  "('z) env_scheme \<Rightarrow> string \<Rightarrow> string \<Rightarrow> world \<Rightarrow> (exn + bool) \<times> world" where
  "verifyUpdateSignature E updateStr signature w =
     (let w1 = https_everywhereLog INFO ''Created instance of nsIDAtaSignatureVerifier'' w;
          w2 = w1\<lparr>sigChecks := sigChecks w1 @ [(updateStr, signature, RULESET_UPDATE_KEY)]\<rparr>
      in (verifyData E updateStr signature RULESET_UPDATE_KEY, w2))"

subsection \<open>applyNewRuleset\<close>

text \<open>The \<open>while (selectStmt.executeStep())\<close> loops: one insert per selected row.\<close>

fun copyRows :: "'a list \<Rightarrow> 'a list \<Rightarrow> 'a list" where
  "copyRows [] dest = dest"
| "copyRows (r # rs) dest = copyRows rs (dest @ [r])"

text \<open>
  \<open>applyNewRuleset()\<close>, statement by statement. \<open>createStatement\<close> raises when its SQL
  names a table the database does not have; \<open>drop table\<close> removes the table itself, so
  the \<open>insert into targets\<close> prepared after \<open>drop table targets\<close> finds no table.
  The interface name \<open>nsILocalFIle\<close> is the source's spelling.
\<close>

definition applyNewRuleset :: "('z) env_scheme \<Rightarrow> world \<Rightarrow> (exn + unit) \<times> world" where
  "applyNewRuleset E w =
     (let w1 = https_everywhereLog INFO ''In applyNewRuleset'' w
      in (case openDatabase E (files w1 TMP_RULESET_DBFILE_PATH) of
            None \<Rightarrow> (Inl StorageError, w1)
          | Some tempDB \<Rightarrow>
      (let w2 = https_everywhereLog INFO ''Opened database connections for copying'' w1
       in if rulesets (liveDB w2) = None then (Inl StorageError, w2) else
      (let w3 = w2\<lparr>liveDB := (liveDB w2)\<lparr>rulesets := None\<rparr>\<rparr>
       in if targets (liveDB w3) = None then (Inl StorageError, w3) else
      (let w4 = w3\<lparr>liveDB := (liveDB w3)\<lparr>targets := None\<rparr>\<rparr>;
           w5 = https_everywhereLog INFO ''Dropped data from rulesets database'' w4
       in (case targets tempDB of
             None \<Rightarrow> (Inl StorageError, w5)
           | Some newTargets \<Rightarrow>
          (case targets (liveDB w5) of
             None \<Rightarrow> (Inl StorageError, w5)
           | Some oldTargets \<Rightarrow>
      (let w6 = w5\<lparr>liveDB := (liveDB w5)\<lparr>targets := Some (copyRows newTargets oldTargets)\<rparr>\<rparr>;
           w7 = https_everywhereLog INFO ''Inserted new targets data into database'' w6
       in (case rulesets tempDB of
             None \<Rightarrow> (Inl StorageError, w7)
           | Some newRulesets \<Rightarrow>
          (case rulesets (liveDB w7) of
             None \<Rightarrow> (Inl StorageError, w7)
           | Some oldRulesets \<Rightarrow>
      (let w8 = w7\<lparr>liveDB := (liveDB w7)\<lparr>rulesets := Some (copyRows newRulesets oldRulesets)\<rparr>\<rparr>;
           w9 = https_everywhereLog INFO ''Inserted new rulesets data into database'' w8
       in if \<not> knownInterface E ''nsILocalFIle'' then (Inl BadInterface, w9) else
      (let w10 = w9\<lparr>files := (files w9)(TMP_RULESET_DBFILE_PATH := None)\<rparr>;
           w11 = https_everywhereLog INFO ''Removed temporary database file'' w10;
           w12 = w11\<lparr>reinits := reinits w11 + 1\<rparr>;
           w13 = https_everywhereLog INFO ''Reinitialized HTTPSRules'' w12
       in (Inr (), w13)))))))))))))"

subsection \<open>fetchRulesetDBFile\<close>

text \<open>
  The \<open>onload\<close> handler. In the source the test \<open>dbHash == hash\<close> around the call of
  \<open>applyNewRuleset\<close> (lines 199 and 203 to 206) stands inside comments, so the handler
  has no branch on it. \<open>"dbhash = " + dbHash\<close> renders a \<open>null\<close> as \<open>null\<close>.
\<close>

definition xhr_onload ::
  "('z) env_scheme \<Rightarrow> jsval \<Rightarrow> jsval \<Rightarrow> byte list option \<Rightarrow> world \<Rightarrow> (exn + unit) \<times> world" where
  "xhr_onload E hashfn hash arrayBuffer w =
     (case arrayBuffer of
        None \<Rightarrow> (Inr (), https_everywhereLog INFO ''Did not download any database data'' w)
      | Some byteArray \<Rightarrow>
          (let w1 = https_everywhereLog INFO
                      (''byteArray has length '' @ toString10 (length byteArray)) w;
               w2 = w1\<lparr>files := (files w1)(TMP_RULESET_DBFILE_PATH \<mapsto> byteArray)\<rparr>
           in case hashBinaryFile E (files w2) TMP_RULESET_DBFILE_PATH (length byteArray) hashfn of
                Inl e \<Rightarrow> (Inl e, w2)
              | Inr dbHash \<Rightarrow>
                  (let w3 = https_everywhereLog INFO
                              (''dbhash = '' @ (case dbHash of None \<Rightarrow> ''null'' | Some h \<Rightarrow> h)) w2;
                       w4 = https_everywhereLog INFO
                              ''Hash of database file downloaded matches the hash provided by update.json'' w3
                   in applyNewRuleset E w4)))"

definition fetchRulesetDBFile ::
  "('z) env_scheme \<Rightarrow> jsval \<Rightarrow> jsval \<Rightarrow> jsval \<Rightarrow> world \<Rightarrow> (exn + unit) \<times> world" where
  "fetchRulesetDBFile E url hashfn hash w =
     (let w1 = https_everywhereLog INFO
                 (''Making request to get database file at '' @ ToString E url) w;
          w2 = w1\<lparr>xhrs := xhrs w1 @ [(''GET'', ToString E url)]\<rparr>
      in case xhr_send E (ToString E url) of
           NoLoad \<Rightarrow> (Inr (), w2)
         | Load arrayBuffer \<Rightarrow> xhr_onload E hashfn hash arrayBuffer w2)"

subsection \<open>conditionallyApplyUpdate and fetchUpdate\<close>

text \<open>The callback of the signature request.\<close>

definition signatureCallback ::
  "('z) env_scheme \<Rightarrow> string \<Rightarrow> jsval \<Rightarrow> string \<Rightarrow> world \<Rightarrow> (exn + unit) \<times> world" where
  "signatureCallback E update updateObj signature0 w =
     (let signature = trim signature0;
          w1 = https_everywhereLog INFO ''Successfully fetched update.json.sig file data'' w
      in (case verifyUpdateSignature E update signature w1 of
            (Inl e, w2) \<Rightarrow> (Inl e, w2)
          | (Inr True, w2) \<Rightarrow>
              (let w3 = https_everywhereLog INFO
                          ''Ruleset update data signature verified successfully'' w2
               in (case getProp updateObj ''source'' of Inl e \<Rightarrow> (Inl e, w3) | Inr source \<Rightarrow>
                  (case getProp updateObj ''hashfn'' of Inl e \<Rightarrow> (Inl e, w3) | Inr hashfn \<Rightarrow>
                  (case getProp updateObj ''hash'' of Inl e \<Rightarrow> (Inl e, w3) | Inr hash \<Rightarrow>
                     fetchRulesetDBFile E source hashfn hash w3))))
          | (Inr False, w2) \<Rightarrow>
              (Inr (), https_everywhereLog WARN
                         ''Validation of the update signature provided failed.'' w2)))"

text \<open>
  The part of \<open>conditionallyApplyUpdate\<close> after the two gates: the signature request
  and its callback.
\<close>

definition requestSignature ::
  "('z) env_scheme \<Rightarrow> string \<Rightarrow> jsval \<Rightarrow> world \<Rightarrow> (exn + unit) \<times> world" where
  "requestSignature E update updateObj w =
     (case getCharPref w RSUPDATE_SIG_URL_PREF of
        Inl e \<Rightarrow> (Inl e, w)
      | Inr sigFileSrc \<Rightarrow>
          (let w1 = w\<lparr>requests := requests w @ [(MAX_RSUPDATE_FETCHES, ''GET'', sigFileSrc)]\<rparr>
           in (case try_request E MAX_RSUPDATE_FETCHES ''GET'' sigFileSrc of
                 None \<Rightarrow> (Inr (), w1)
               | Some signature \<Rightarrow> signatureCallback E update updateObj signature w1)))"

definition conditionallyApplyUpdate ::
  "('z) env_scheme \<Rightarrow> string \<Rightarrow> world \<Rightarrow> (exn + unit) \<times> world" where
  "conditionallyApplyUpdate E update w =
     (let w1 = https_everywhereLog INFO ''Got update data:'' w;
          w2 = https_everywhereLog INFO update w1;
          n = int (length update);
          w3 = https_everywhereLog INFO
                 (charCodeAtStr update (n - 3) @ charCodeAtStr update (n - 2) @
                  charCodeAtStr update (n - 1)) w2
      in (case JSON_parse E update of None \<Rightarrow> (Inl SyntaxError, w3) | Some updateObj \<Rightarrow>
         (case getCharPref w3 VERSION_PREF of Inl e \<Rightarrow> (Inl e, w3) | Inr extVersion \<Rightarrow>
         (case getCharPref w3 BRANCH_PREF of Inl e \<Rightarrow> (Inl e, w3) | Inr extBranch \<Rightarrow>
         (case getCharPref w3 RULESET_VERSION_PREF of Inl e \<Rightarrow> (Inl e, w3) | Inr rulesetVersion \<Rightarrow>
         (let w4 = https_everywhereLog INFO ''Inside call to conditionallyApplyUpdate'' w3
          in (case getProp updateObj ''version'' of Inl e \<Rightarrow> (Inl e, w4) | Inr version \<Rightarrow>
             (case checkVersionRequirements E extVersion rulesetVersion version w4 of
                (Inl e, w5) \<Rightarrow> (Inl e, w5)
              | (Inr False, w5) \<Rightarrow>
                  (Inr (), https_everywhereLog NOTE
                     ''Downloaded an either incompatible ruleset library or not a new one.'' w5)
              | (Inr True, w5) \<Rightarrow>
                  (case getProp updateObj ''branch'' of Inl e \<Rightarrow> (Inl e, w5) | Inr branch \<Rightarrow>
                     (if branch \<noteq> JStr extBranch
                      then (Inr (), https_everywhereLog WARN
                              ''Downloaded a ruleset update for the incorrect branch.'' w5)
                      else requestSignature E update updateObj w5))))))))))"

definition fetchUpdate :: "('z) env_scheme \<Rightarrow> world \<Rightarrow> (exn + unit) \<times> world" where
  "fetchUpdate E w =
     (let w1 = https_everywhereLog INFO ''Calling fetchUpdate'' w
      in (case getCharPref w1 RSUPDATE_URL_PREF of
            Inl e \<Rightarrow> (Inl e, w1)
          | Inr manifestSrc \<Rightarrow>
              (let w2 = w1\<lparr>requests := requests w1 @ [(MAX_RSUPDATE_FETCHES, ''GET'', manifestSrc)]\<rparr>
               in (case try_request E MAX_RSUPDATE_FETCHES ''GET'' manifestSrc of
                     None \<Rightarrow> (Inr (), w2)
                   | Some responseText \<Rightarrow>
                       (let w3 = https_everywhereLog INFO
                                   ''Successfully fetched update.json file data'' w2
                        in conditionallyApplyUpdate E responseText w3)))))"

subsection \<open>A version comparator\<close>

text \<open>
  Modelled from the spec: the version comparator (\<open>nsIVersionComparator\<close>) is a service
  of the platform and not part of the file; the spec asks for a semantic, dot-separated
  (not lexicographic) ordering. \<open>dottedCompare\<close> splits both versions at the dots, reads
  each component as a decimal number and compares component by component, a missing
  component counting as 0. It stands for \<open>verCompare\<close> in the evaluations below; the
  general statements hold for every comparator.
\<close>

fun splitOn :: "char \<Rightarrow> string \<Rightarrow> string list" where
  "splitOn c [] = [[]]"
| "splitOn c (x # xs) =
     (if x = c then [] # splitOn c xs
      else (case splitOn c xs of [] \<Rightarrow> [[x]] | p # ps \<Rightarrow> (x # p) # ps))"

definition isDigit :: "char \<Rightarrow> bool" where
  "isDigit c = (48 \<le> (of_char c :: nat) \<and> (of_char c :: nat) \<le> 57)"

definition parseNat :: "string \<Rightarrow> nat" where
  "parseNat s = foldl (\<lambda>n c. 10 * n + (of_char c - 48)) 0 (takeWhile isDigit s)"

fun compareParts :: "nat list \<Rightarrow> nat list \<Rightarrow> int" where
  "compareParts [] [] = 0"
| "compareParts (a # as) [] = (if 0 < a then 1 else compareParts as [])"
| "compareParts [] (b # bs) = (if 0 < b then - 1 else compareParts [] bs)"
| "compareParts (a # as) (b # bs) =
     (if a < b then - 1 else if b < a then 1 else compareParts as bs)"

definition dottedCompare :: "string \<Rightarrow> string \<Rightarrow> int" where
  "dottedCompare a b =
     compareParts (map parseNat (splitOn CHR ''.'' a)) (map parseNat (splitOn CHR ''.'' b))"

subsection \<open>A concrete platform and world\<close>

text \<open>
  One installation and one update server, for the evaluations: extension version
  \<open>1.2.3\<close> on branch \<open>stable\<close> with ruleset version \<open>1.2.3.0\<close>; a server that answers
  the manifest URL with \<open>body\<close>, which \<open>JSON.parse\<close> reads as \<open>parsed\<close>, answers the
  signature URL with a signature that verifies exactly when \<open>sigOk\<close>, and answers every
  artifact request with \<open>sampleArtifact\<close>, a database file holding \<open>sampleNewDB\<close>.
  \<open>sampleDigest\<close> stands for the hash service: three bytes, whatever the algorithm.
\<close>

definition sampleManifestURL :: string where
  "sampleManifestURL = ''https://www.example.org/update.json''"

definition sampleSigURL :: string where
  "sampleSigURL = ''https://www.example.org/update.json.sig''"

definition samplePrefs :: "string \<Rightarrow> string option" where
  "samplePrefs = map_of
     [(VERSION_PREF, ''1.2.3''),
      (BRANCH_PREF, ''stable''),
      (RULESET_VERSION_PREF, ''1.2.3.0''),
      (RSUPDATE_URL_PREF, sampleManifestURL),
      (RSUPDATE_SIG_URL_PREF, sampleSigURL)]"

definition sampleOldDB :: db where
  "sampleOldDB = \<lparr>targets = Some [(''old.example.com'', 1)], rulesets = Some [''old ruleset'']\<rparr>"

definition sampleNewDB :: db where
  "sampleNewDB = \<lparr>targets = Some [(''new.example.com'', 1)], rulesets = Some [''new ruleset'']\<rparr>"

definition sampleArtifact :: "byte list" where
  "sampleArtifact = [83, 81, 76, 105]"

definition sampleDigest :: "hashAlg \<Rightarrow> byte list \<Rightarrow> byte list" where
  "sampleDigest alg bs = [of_nat (length bs), 171, 205]"

definition sampleWorld :: world where
  "sampleWorld =
     \<lparr>prefs = samplePrefs, files = (\<lambda>p. None), liveDB = sampleOldDB, logged = [],
      requests = [], xhrs = [], sigChecks = [], reinits = 0\<rparr>"

definition sampleToString :: "jsval \<Rightarrow> string" where
  "sampleToString v =
     (case v of
        Undefined \<Rightarrow> ''undefined''
      | JNull \<Rightarrow> ''null''
      | JBool b \<Rightarrow> (if b then ''true'' else ''false'')
      | _ \<Rightarrow> ''[object Object]'')"

definition samplePlatform :: "string \<Rightarrow> jsval option \<Rightarrow> bool \<Rightarrow> env" where
  "samplePlatform body parsed sigOk =
     \<lparr>try_request = (\<lambda>n method url.
         if url = sampleManifestURL then Some body
         else if url = sampleSigURL then Some ''c2lnbmF0dXJl '' else None),
      JSON_parse = (\<lambda>s. if s = body then parsed else None),
      verCompare = dottedCompare,
      verifyData = (\<lambda>d sg k.
         Inr (sigOk \<and> d = body \<and> sg = ''c2lnbmF0dXJl'' \<and> k = RULESET_UPDATE_KEY)),
      cryptoHash = sampleDigest,
      xhr_send = (\<lambda>url. Load (Some sampleArtifact)),
      openDatabase = (\<lambda>f. if f = Some sampleArtifact then Some sampleNewDB else None),
      toStringJS = sampleToString,
      knownInterface = (\<lambda>n. n = ''nsILocalFile'')\<rparr>"

text \<open>A manifest text and the object \<open>JSON.parse\<close> makes of it.\<close>

definition manifestBody :: "string \<Rightarrow> string \<Rightarrow> string \<Rightarrow> string \<Rightarrow> string \<Rightarrow> string" where
  \<open>manifestBody version branch source hashfn hash =
     ''{"version": "'' @ version @ ''", "branch": "'' @ branch @ ''", "source": "'' @ source @
     ''", "hashfn": "'' @ hashfn @ ''", "hash": "'' @ hash @ ''"}''\<close>

definition manifestObj :: "string \<Rightarrow> string \<Rightarrow> string \<Rightarrow> string \<Rightarrow> string \<Rightarrow> jsval" where
  "manifestObj version branch source hashfn hash =
     JObj [(''version'', JStr version), (''branch'', JStr branch), (''source'', JStr source),
           (''hashfn'', JStr hashfn), (''hash'', JStr hash)]"

definition manifestPlatform ::
  "string \<Rightarrow> string \<Rightarrow> string \<Rightarrow> string \<Rightarrow> string \<Rightarrow> bool \<Rightarrow> env" where
  "manifestPlatform version branch source hashfn hash sigOk =
     samplePlatform (manifestBody version branch source hashfn hash)
       (Some (manifestObj version branch source hashfn hash)) sigOk"

text \<open>
  The manifest of a newer, compatible release on the right branch, whose \<open>hash\<close> is
  the digest of the artifact the server delivers, and the platform that serves it with a
  valid signature.
\<close>

definition sampleSource :: string where
  "sampleSource = ''https://www.example.org/rulesets.sqlite''"

definition goodBody :: string where
  "goodBody = manifestBody ''1.2.3.5'' ''stable'' sampleSource ''sha256'' ''04abcd''"

definition goodPlatform :: env where
  "goodPlatform = manifestPlatform ''1.2.3.5'' ''stable'' sampleSource ''sha256'' ''04abcd'' True"

text \<open>
  Variations of that manifest, one per scenario: a signature that does not verify, a
  \<open>hash\<close> that is not the digest of the artifact, a digest algorithm outside the
  accepted names, a \<open>source\<close> over plain HTTP, the branch \<open>beta\<close>, the candidate
  version \<open>1.3.0\<close>, a body that is not JSON and an object without \<open>version\<close>.
\<close>

definition forgedPlatform :: env where
  "forgedPlatform = manifestPlatform ''1.2.3.5'' ''stable'' sampleSource ''sha256'' ''04abcd'' False"

definition mismatchPlatform :: env where
  "mismatchPlatform = manifestPlatform ''1.2.3.5'' ''stable'' sampleSource ''sha256'' ''00ff00'' True"

definition sha3Platform :: env where
  "sha3Platform = manifestPlatform ''1.2.3.5'' ''stable'' sampleSource ''sha3'' ''04abcd'' True"

definition httpPlatform :: env where
  "httpPlatform = manifestPlatform ''1.2.3.5'' ''stable''
     ''http://www.example.org/rulesets.sqlite'' ''sha256'' ''04abcd'' True"

definition betaBody :: string where
  "betaBody = manifestBody ''1.2.3.5'' ''beta'' sampleSource ''sha256'' ''04abcd''"

definition betaObj :: jsval where
  "betaObj = manifestObj ''1.2.3.5'' ''beta'' sampleSource ''sha256'' ''04abcd''"

definition betaPlatform :: env where
  "betaPlatform = manifestPlatform ''1.2.3.5'' ''beta'' sampleSource ''sha256'' ''04abcd'' True"

definition otherReleaseBody :: string where
  "otherReleaseBody = manifestBody ''1.3.0'' ''stable'' sampleSource ''sha256'' ''04abcd''"

definition otherReleaseObj :: jsval where
  "otherReleaseObj = manifestObj ''1.3.0'' ''stable'' sampleSource ''sha256'' ''04abcd''"

definition otherReleasePlatform :: env where
  "otherReleasePlatform =
     manifestPlatform ''1.3.0'' ''stable'' sampleSource ''sha256'' ''04abcd'' True"

definition unparsablePlatform :: env where
  "unparsablePlatform = samplePlatform ''not json'' None True"

definition emptyObjectPlatform :: env where
  "emptyObjectPlatform = samplePlatform ''{}'' (Some (JObj [])) True"

text \<open>The world one full run on the good manifest leaves behind.\<close>

definition afterFirstRun :: world where
  "afterFirstRun = snd (fetchUpdate goodPlatform sampleWorld)"

section \<open>Properties\<close>

subsection \<open>Logging touches the log only\<close>

lemma log_fields [simp]:
  "prefs (https_everywhereLog l m w) = prefs w"
  "files (https_everywhereLog l m w) = files w"
  "liveDB (https_everywhereLog l m w) = liveDB w"
  "requests (https_everywhereLog l m w) = requests w"
  "xhrs (https_everywhereLog l m w) = xhrs w"
  "sigChecks (https_everywhereLog l m w) = sigChecks w"
  "reinits (https_everywhereLog l m w) = reinits w"
  "logged (https_everywhereLog l m w) = logged w @ [(l, m)]"
  by (simp_all add: https_everywhereLog_def)

lemma getCharPref_log [simp]: "getCharPref (https_everywhereLog l m w) k = getCharPref w k"
  by (simp add: getCharPref_def)

subsection \<open>Hexadecimal rendering of a digest\<close>













lemma hexDigit_nth: "d < 16 \<Longrightarrow> hexDigit d = ''0123456789abcdef'' ! d"
  by (simp add: hexDigit_def)







subsection \<open>The version gate\<close>

lemma lastIndexOf_absent: "c \<notin> set k \<Longrightarrow> lastIndexOf k c = - 1"
  by (induction k) (auto simp: Let_def)

lemma lastIndexOf_append: "c \<notin> set k \<Longrightarrow> lastIndexOf (p @ c # k) c = int (length p)"
  by (induction p) (auto simp: Let_def lastIndexOf_absent)

lemma slice_parent: "c \<notin> set k \<Longrightarrow> slice_js (p @ c # k) 0 (lastIndexOf (p @ c # k) c) = p"
  by (simp add: lastIndexOf_append slice_js_def relIndex_def Let_def)

lemma checkVersionRequirements_fst:
  "fst (checkVersionRequirements E ext rs (JStr nv) w) =
     Inr (verCompare E ext (slice_js nv 0 (lastIndexOf nv CHR ''.'')) = 0 \<and> 0 < verCompare E nv rs)"
  by (simp add: checkVersionRequirements_def versionPrefix_def ToString_def Let_def)

lemma checkVersionRequirements_snd:
  "snd (checkVersionRequirements E ext rs nv w) =
     https_everywhereLog INFO
        (''Checking version requirements with extension version '' @ ext @
         '' and ruleset version '' @ rs) w"
  by (simp add: checkVersionRequirements_def Let_def split: sum.splits)

lemma sample_gate_eval:
  "fst (checkVersionRequirements (samplePlatform [] None False) ''1.2.3'' ''1.2.0''
          (JStr ''1.2.3.5'') w) = Inr True"
  "fst (checkVersionRequirements (samplePlatform [] None False) ''1.2.3'' ''1.2.0''
          (JStr ''1.2.5'') w) = Inr False"
  "fst (checkVersionRequirements (samplePlatform [] None False) ''1.2.3'' ''1.2.0''
          (JStr ''1.3.0'') w) = Inr False"
  "fst (checkVersionRequirements (samplePlatform [] None False) ''1.2.3'' ''1.2.0''
          (JStr ''1.2.0'') w) = Inr False"
  by (simp_all add: checkVersionRequirements_fst samplePlatform_def dottedCompare_def
        parseNat_def isDigit_def slice_js_def relIndex_def Let_def)

text \<open>
  Claim C3, as stated, at its own example: with extension version \<open>1.2.3\<close> and installed
  database version \<open>1.2.0\<close> the candidate \<open>1.2.5\<close> is not accepted. Its parent-version
  component is \<open>1.2\<close>, which does not compare equal to \<open>1.2.3\<close>.
\<close>

theorem checkVersionRequirements_rejects_1_2_5:
  "fst (checkVersionRequirements (samplePlatform [] None False) ''1.2.3'' ''1.2.0''
          (JStr ''1.2.5'') sampleWorld) = Inr False"
  by (simp add: checkVersionRequirements_fst samplePlatform_def dottedCompare_def
        parseNat_def isDigit_def slice_js_def relIndex_def Let_def)

text \<open>
  Claim C3, amended. The parent-version component of a candidate \<open>p.k\<close> (\<open>k\<close> without a
  dot) is \<open>p\<close>, everything before the last dot, and \<open>checkVersionRequirements\<close> accepts
  the candidate exactly when the comparator finds the installed extension version equal
  to \<open>p\<close> and the whole candidate strictly greater than the installed database version.
  With extension version \<open>1.2.3\<close> and installed database version \<open>1.2.0\<close>, under the
  dot-separated numeric comparison, the candidate \<open>1.2.3.5\<close> is accepted and the
  candidates \<open>1.2.5\<close>, \<open>1.3.0\<close> and \<open>1.2.0\<close> are rejected.
\<close>

theorem checkVersionRequirements_gate:
  "(CHR ''.'' \<notin> set k \<longrightarrow>
      fst (checkVersionRequirements E ext rs (JStr (p @ CHR ''.'' # k)) w) =
        Inr (verCompare E ext p = 0 \<and> 0 < verCompare E (p @ CHR ''.'' # k) rs)) \<and>
   fst (checkVersionRequirements (samplePlatform [] None False) ''1.2.3'' ''1.2.0''
          (JStr ''1.2.3.5'') w) = Inr True \<and>
   fst (checkVersionRequirements (samplePlatform [] None False) ''1.2.3'' ''1.2.0''
          (JStr ''1.2.5'') w) = Inr False \<and>
   fst (checkVersionRequirements (samplePlatform [] None False) ''1.2.3'' ''1.2.0''
          (JStr ''1.3.0'') w) = Inr False \<and>
   fst (checkVersionRequirements (samplePlatform [] None False) ''1.2.3'' ''1.2.0''
          (JStr ''1.2.0'') w) = Inr False"
proof -
  have "CHR ''.'' \<notin> set k \<longrightarrow>
      fst (checkVersionRequirements E ext rs (JStr (p @ CHR ''.'' # k)) w) =
        Inr (verCompare E ext p = 0 \<and> 0 < verCompare E (p @ CHR ''.'' # k) rs)"
    by (simp add: checkVersionRequirements_fst slice_parent)
  then show ?thesis by (simp add: sample_gate_eval)
qed

theorem checkVersionRequirements_gate_witness:
  "CHR ''.'' \<notin> set ''5'' \<and>
   fst (checkVersionRequirements (samplePlatform [] None False) ''1.2.3'' ''1.2.0''
          (JStr (''1.2.3'' @ CHR ''.'' # ''5'')) sampleWorld) =
     Inr (verCompare (samplePlatform [] None False) ''1.2.3'' ''1.2.3'' = 0 \<and>
          0 < verCompare (samplePlatform [] None False) (''1.2.3'' @ CHR ''.'' # ''5'') ''1.2.0'')"
  using checkVersionRequirements_gate [of "''5''" "samplePlatform [] None False" "''1.2.3''"
      "''1.2.0''" "''1.2.3''" sampleWorld]
  by simp

subsection \<open>What each stage leaves alone\<close>

lemma verifyUpdateSignature_fst:
  "fst (verifyUpdateSignature E u sg w) = verifyData E u sg RULESET_UPDATE_KEY"
  by (simp add: verifyUpdateSignature_def Let_def)

lemma verifyUpdateSignature_fields:
  "prefs (snd (verifyUpdateSignature E u sg w)) = prefs w"
  "files (snd (verifyUpdateSignature E u sg w)) = files w"
  "liveDB (snd (verifyUpdateSignature E u sg w)) = liveDB w"
  "requests (snd (verifyUpdateSignature E u sg w)) = requests w"
  "xhrs (snd (verifyUpdateSignature E u sg w)) = xhrs w"
  by (simp_all add: verifyUpdateSignature_def Let_def)

lemma applyNewRuleset_fields:
  "prefs (snd (applyNewRuleset E w)) = prefs w"
  "requests (snd (applyNewRuleset E w)) = requests w"
  "xhrs (snd (applyNewRuleset E w)) = xhrs w"
  "sigChecks (snd (applyNewRuleset E w)) = sigChecks w"
  by (simp_all add: applyNewRuleset_def Let_def split: option.splits)

lemma applyNewRuleset_raises: "\<exists>e. fst (applyNewRuleset E w) = Inl e"
  by (simp add: applyNewRuleset_def Let_def split: option.splits)

lemma applyNewRuleset_liveDB:
  "liveDB (snd (applyNewRuleset E w)) =
     (case openDatabase E (files w TMP_RULESET_DBFILE_PATH) of
        None \<Rightarrow> liveDB w
      | Some tempDB \<Rightarrow>
          if rulesets (liveDB w) = None then liveDB w
          else if targets (liveDB w) = None then (liveDB w)\<lparr>rulesets := None\<rparr>
          else (liveDB w)\<lparr>rulesets := None, targets := None\<rparr>)"
  by (simp add: applyNewRuleset_def Let_def split: option.splits)

lemma applyNewRuleset_files: "files (snd (applyNewRuleset E w)) = files w"
  by (simp add: applyNewRuleset_def Let_def split: option.splits)

lemma xhr_onload_fields:
  "prefs (snd (xhr_onload E hf h ab w)) = prefs w"
  "requests (snd (xhr_onload E hf h ab w)) = requests w"
  "sigChecks (snd (xhr_onload E hf h ab w)) = sigChecks w"
  by (simp_all add: xhr_onload_def Let_def applyNewRuleset_fields split: option.splits sum.splits)

lemma fetchRulesetDBFile_fields:
  "prefs (snd (fetchRulesetDBFile E url hf h w)) = prefs w"
  "requests (snd (fetchRulesetDBFile E url hf h w)) = requests w"
  "sigChecks (snd (fetchRulesetDBFile E url hf h w)) = sigChecks w"
  by (simp_all add: fetchRulesetDBFile_def Let_def xhr_onload_fields split: xhrOutcome.splits)

lemma signatureCallback_fields:
  "prefs (snd (signatureCallback E u obj sg w)) = prefs w"
  "requests (snd (signatureCallback E u obj sg w)) = requests w"
  by (simp_all add: signatureCallback_def Let_def fetchRulesetDBFile_fields
        verifyUpdateSignature_def split: sum.splits bool.splits prod.splits)

lemma signatureCallback_rejected:
  assumes "verifyData E u (trim sg) RULESET_UPDATE_KEY \<noteq> Inr True"
  shows "liveDB (snd (signatureCallback E u obj sg w)) = liveDB w"
    and "files (snd (signatureCallback E u obj sg w)) = files w"
    and "xhrs (snd (signatureCallback E u obj sg w)) = xhrs w"
  using assms
  by (simp_all add: signatureCallback_def Let_def verifyUpdateSignature_def
        split: sum.splits bool.splits prod.splits)

lemma requestSignature_fields:
  "prefs (snd (requestSignature E u obj w)) = prefs w"
  by (simp_all add: requestSignature_def Let_def getCharPref_def signatureCallback_fields
        split: sum.splits option.splits)

lemma conditionallyApplyUpdate_prefs:
  "prefs (snd (conditionallyApplyUpdate E u w)) = prefs w"
  by (simp add: conditionallyApplyUpdate_def Let_def requestSignature_fields
        checkVersionRequirements_def
        split: sum.splits option.splits prod.splits bool.splits)

lemma fetchUpdate_prefs:
  "prefs (snd (fetchUpdate E w)) = prefs w"
  by (simp add: fetchUpdate_def Let_def conditionallyApplyUpdate_prefs
        split: sum.splits option.splits)

lemma checkVersionRequirements_fst_indep:
  "fst (checkVersionRequirements E a b v w) = fst (checkVersionRequirements E a b v w')"
  by (simp add: checkVersionRequirements_def Let_def split: sum.splits)

lemma checkVersionRequirements_eq:
  "checkVersionRequirements E a b v w =
     (fst (checkVersionRequirements E a b v w'),
      https_everywhereLog INFO
        (''Checking version requirements with extension version '' @ a @
         '' and ruleset version '' @ b) w)"
  by (simp add: checkVersionRequirements_def Let_def split: sum.splits)

lemma requestSignature_new_requests:
  "requests (snd (requestSignature E u obj w)) =
     requests w @ (case prefs w RSUPDATE_SIG_URL_PREF of None \<Rightarrow> []
                   | Some s \<Rightarrow> [(MAX_RSUPDATE_FETCHES, ''GET'', s)])"
  by (simp add: requestSignature_def Let_def getCharPref_def signatureCallback_fields
        split: option.splits)

lemma requestSignature_rejected:
  assumes "\<And>s sg. prefs w RSUPDATE_SIG_URL_PREF = Some s \<Longrightarrow>
             try_request E MAX_RSUPDATE_FETCHES ''GET'' s = Some sg \<Longrightarrow>
             verifyData E u (trim sg) RULESET_UPDATE_KEY \<noteq> Inr True"
  shows "liveDB (snd (requestSignature E u obj w)) = liveDB w"
    and "files (snd (requestSignature E u obj w)) = files w"
    and "xhrs (snd (requestSignature E u obj w)) = xhrs w"
  using assms
  by (simp_all add: requestSignature_def Let_def getCharPref_def signatureCallback_rejected
        split: option.splits)

text \<open>
  The shape of every run of \<open>conditionallyApplyUpdate\<close>: either both gates pass and the
  run is the signature request, started in a world that differs from the initial one in
  the log only, or the run ends before it and changes nothing but the log.
\<close>

lemma conditionallyApplyUpdate_cases:
  "(\<exists>obj w'. conditionallyApplyUpdate E u w = requestSignature E u obj w' \<and>
      JSON_parse E u = Some obj \<and>
      prefs w' = prefs w \<and> files w' = files w \<and> liveDB w' = liveDB w \<and>
      requests w' = requests w \<and> xhrs w' = xhrs w \<and> sigChecks w' = sigChecks w \<and>
      (\<exists>ev eb rv v. prefs w VERSION_PREF = Some ev \<and> prefs w BRANCH_PREF = Some eb \<and>
         prefs w RULESET_VERSION_PREF = Some rv \<and> getProp obj ''version'' = Inr v \<and>
         fst (checkVersionRequirements E ev rv v w) = Inr True \<and>
         getProp obj ''branch'' = Inr (JStr eb))) \<or>
   (prefs (snd (conditionallyApplyUpdate E u w)) = prefs w \<and>
    files (snd (conditionallyApplyUpdate E u w)) = files w \<and>
    liveDB (snd (conditionallyApplyUpdate E u w)) = liveDB w \<and>
    requests (snd (conditionallyApplyUpdate E u w)) = requests w \<and>
    xhrs (snd (conditionallyApplyUpdate E u w)) = xhrs w \<and>
    sigChecks (snd (conditionallyApplyUpdate E u w)) = sigChecks w \<and>
    \<not> (\<exists>obj ev eb rv v. JSON_parse E u = Some obj \<and>
         prefs w VERSION_PREF = Some ev \<and> prefs w BRANCH_PREF = Some eb \<and>
         prefs w RULESET_VERSION_PREF = Some rv \<and> getProp obj ''version'' = Inr v \<and>
         fst (checkVersionRequirements E ev rv v w) = Inr True \<and>
         getProp obj ''branch'' = Inr (JStr eb)))"
proof (cases "JSON_parse E u")
  case None
  then show ?thesis by (simp add: conditionallyApplyUpdate_def Let_def)
next
  case (Some obj)
  show ?thesis
  proof (cases "prefs w VERSION_PREF")
    case None
    then show ?thesis using Some by (simp add: conditionallyApplyUpdate_def Let_def getCharPref_def)
  next
    case ev: (Some ev)
    show ?thesis
    proof (cases "prefs w BRANCH_PREF")
      case None
      then show ?thesis using Some ev by (simp add: conditionallyApplyUpdate_def Let_def
      getCharPref_def)
    next
      case eb: (Some eb)
      show ?thesis
      proof (cases "prefs w RULESET_VERSION_PREF")
        case None
        then show ?thesis using Some ev eb by (simp add: conditionallyApplyUpdate_def Let_def
        getCharPref_def)
      next
        case rv: (Some rv)
        show ?thesis
        proof (cases "getProp obj ''version''")
          case (Inl e)
          then show ?thesis using Some ev eb rv
            by (simp add: conditionallyApplyUpdate_def Let_def getCharPref_def)
        next
          case v: (Inr v)
          let ?w4 = "https_everywhereLog INFO ''Inside call to conditionallyApplyUpdate''
                      (https_everywhereLog INFO
                 (charCodeAtStr u (int (length u) - 3) @ charCodeAtStr u (int (length u) - 2) @
                  charCodeAtStr u (int (length u) - 1)) (https_everywhereLog INFO u (https_everywhereLog INFO ''Got update data:'' w)))"
          have eq: "checkVersionRequirements E ev rv v ?w4 =
              (fst (checkVersionRequirements E ev rv v w),
               https_everywhereLog INFO
                 (''Checking version requirements with extension version '' @ ev @
                  '' and ruleset version '' @ rv) ?w4)"
            by (rule checkVersionRequirements_eq)
          show ?thesis
          proof (cases "fst (checkVersionRequirements E ev rv v w)")
            case (Inl e)
            then show ?thesis using Some ev eb rv v eq
              by (simp add: conditionallyApplyUpdate_def Let_def getCharPref_def)
          next
            case ok: (Inr ok)
            show ?thesis
            proof (cases ok)
              case False
              then show ?thesis using Some ev eb rv v eq ok
                by (simp add: conditionallyApplyUpdate_def Let_def getCharPref_def)
            next
              case True
              show ?thesis
              proof (cases "getProp obj ''branch''")
                case (Inl e)
                then show ?thesis using Some ev eb rv v eq ok True
                  by (simp add: conditionallyApplyUpdate_def Let_def getCharPref_def)
              next
                case (Inr br)
                show ?thesis
                proof (cases "br = JStr eb")
                  case False
                  then show ?thesis using Some ev eb rv v eq ok True Inr
                    by (simp add: conditionallyApplyUpdate_def Let_def getCharPref_def)
                next
                  case br: True
                  let ?w5 = "https_everywhereLog INFO
                     (''Checking version requirements with extension version '' @ ev @
                      '' and ruleset version '' @ rv) ?w4"
                  have "conditionallyApplyUpdate E u w = requestSignature E u obj ?w5"
                    using Some ev eb rv v eq ok True Inr br
                    by (simp add: conditionallyApplyUpdate_def Let_def getCharPref_def)
                  then show ?thesis using Some ev eb rv v ok True Inr br
                    by (intro disjI1 exI [of _ obj] exI [of _ ?w5]) simp
                qed
              qed
            qed
          qed
        qed
      qed
    qed
  qed
qed

subsection \<open>Unfolding sets for the evaluations\<close>

lemmas pipeline_defs = fetchUpdate_def conditionallyApplyUpdate_def requestSignature_def
  signatureCallback_def verifyUpdateSignature_def fetchRulesetDBFile_def xhr_onload_def
  applyNewRuleset_def checkVersionRequirements_def versionPrefix_def getCharPref_def getProp_def
  hashBinaryFile_def hashInit_def ToString_def Let_def

lemmas sample_defs = manifestPlatform_def samplePlatform_def sampleWorld_def samplePrefs_def
  manifestObj_def sampleManifestURL_def sampleSigURL_def sampleOldDB_def sampleNewDB_def
  sampleArtifact_def sampleDigest_def
  VERSION_PREF_def BRANCH_PREF_def RULESET_VERSION_PREF_def RSUPDATE_URL_PREF_def
  RSUPDATE_SIG_URL_PREF_def MAX_RSUPDATE_FETCHES_def TMP_RULESET_DBFILE_PATH_def
  dottedCompare_def parseNat_def isDigit_def slice_js_def relIndex_def trim_def isWhiteSpace_def

lemmas pref_names = VERSION_PREF_def BRANCH_PREF_def RULESET_VERSION_PREF_def RSUPDATE_URL_PREF_def
  RSUPDATE_SIG_URL_PREF_def

lemma trim_sample: "trim ''c2lnbmF0dXJl '' = ''c2lnbmF0dXJl''"
  by (simp add: trim_def isWhiteSpace_def)

subsection \<open>The signature gate\<close>

text \<open>
  Claim C2. When the signature delivered for a manifest does not verify against
  \<open>RULESET_UPDATE_KEY\<close> (the verifier answers \<open>false\<close> or raises), a run of
  \<open>conditionallyApplyUpdate\<close> leaves the live database and the files as they were and
  opens no artifact request, whatever the manifest's \<open>source\<close> and \<open>hash\<close> say.
\<close>

theorem failed_signature_leaves_database:
  assumes "\<And>sigFileSrc signature.
             prefs w RSUPDATE_SIG_URL_PREF = Some sigFileSrc \<Longrightarrow>
             try_request E MAX_RSUPDATE_FETCHES ''GET'' sigFileSrc = Some signature \<Longrightarrow>
             verifyData E update (trim signature) RULESET_UPDATE_KEY \<noteq> Inr True"
  shows "liveDB (snd (conditionallyApplyUpdate E update w)) = liveDB w \<and>
         files (snd (conditionallyApplyUpdate E update w)) = files w \<and>
         xhrs (snd (conditionallyApplyUpdate E update w)) = xhrs w"
proof -
  consider (sig) obj w' where
      "conditionallyApplyUpdate E update w = requestSignature E update obj w'"
      "prefs w' = prefs w" "files w' = files w" "liveDB w' = liveDB w" "xhrs w' = xhrs w"
    | (stop) "files (snd (conditionallyApplyUpdate E update w)) = files w"
      "liveDB (snd (conditionallyApplyUpdate E update w)) = liveDB w"
      "xhrs (snd (conditionallyApplyUpdate E update w)) = xhrs w"
    using conditionallyApplyUpdate_cases [of E update w] by blast
  then show ?thesis
  proof cases
    case sig
    have h: "\<And>s sg. prefs w' RSUPDATE_SIG_URL_PREF = Some s \<Longrightarrow>
             try_request E MAX_RSUPDATE_FETCHES ''GET'' s = Some sg \<Longrightarrow>
             verifyData E update (trim sg) RULESET_UPDATE_KEY \<noteq> Inr True"
      using assms sig(2) by simp
    have "liveDB (snd (requestSignature E update obj w')) = liveDB w'"
      and "files (snd (requestSignature E update obj w')) = files w'"
      and "xhrs (snd (requestSignature E update obj w')) = xhrs w'"
      by (rule requestSignature_rejected [OF h], assumption+)+
    then show ?thesis using sig by simp
  next
    case stop
    then show ?thesis by simp
  qed
qed

text \<open>
  The theorem at the good manifest served with a signature that does not verify: the
  signature is requested, the verifier answers \<open>false\<close>, nothing is fetched or installed.
\<close>

theorem failed_signature_leaves_database_witness:
  "(prefs sampleWorld RSUPDATE_SIG_URL_PREF = Some sampleSigURL \<and>
    try_request forgedPlatform MAX_RSUPDATE_FETCHES ''GET'' sampleSigURL = Some ''c2lnbmF0dXJl '' \<and>
    verifyData forgedPlatform goodBody (trim ''c2lnbmF0dXJl '') RULESET_UPDATE_KEY = Inr False) \<and>
   liveDB (snd (conditionallyApplyUpdate forgedPlatform goodBody sampleWorld)) = liveDB sampleWorld \<and>
   files (snd (conditionallyApplyUpdate forgedPlatform goodBody sampleWorld)) = files sampleWorld \<and>
   xhrs (snd (conditionallyApplyUpdate forgedPlatform goodBody sampleWorld)) = xhrs sampleWorld"
  using failed_signature_leaves_database [of sampleWorld forgedPlatform goodBody]
  by (simp add: manifestPlatform_def samplePlatform_def sampleWorld_def samplePrefs_def
        sampleSigURL_def sampleManifestURL_def forgedPlatform_def goodBody_def sampleSource_def
        pref_names)

subsection \<open>The branch gate and the order of the stages\<close>

text \<open>
  Claim C8. A manifest whose \<open>branch\<close> is not the configured branch (another string, no
  string, or no such field) is rejected: the run leaves the live database and the files
  as they were, requests no signature, verifies none and opens no artifact request. The
  platform is arbitrary, so this covers a signature that would verify and a version that
  passes the version gate.
\<close>

theorem wrong_branch_rejected:
  assumes "JSON_parse E update = Some updateObj"
    and "prefs w BRANCH_PREF = Some extBranch"
    and "getProp updateObj ''branch'' \<noteq> Inr (JStr extBranch)"
  shows "liveDB (snd (conditionallyApplyUpdate E update w)) = liveDB w \<and>
         files (snd (conditionallyApplyUpdate E update w)) = files w \<and>
         requests (snd (conditionallyApplyUpdate E update w)) = requests w \<and>
         xhrs (snd (conditionallyApplyUpdate E update w)) = xhrs w \<and>
         sigChecks (snd (conditionallyApplyUpdate E update w)) = sigChecks w"
  using conditionallyApplyUpdate_cases [of E update w] assms by auto

text \<open>
  The theorem at a manifest for branch \<open>beta\<close>, version \<open>1.2.3.5\<close>, on an installation
  of branch \<open>stable\<close>, with a server whose signature verifies.
\<close>

theorem wrong_branch_rejected_witness:
  "(JSON_parse betaPlatform betaBody = Some betaObj \<and>
    prefs sampleWorld BRANCH_PREF = Some ''stable'' \<and>
    getProp betaObj ''branch'' = Inr (JStr ''beta'') \<and>
    fst (checkVersionRequirements betaPlatform ''1.2.3'' ''1.2.3.0'' (JStr ''1.2.3.5'') sampleWorld)
      = Inr True) \<and>
   liveDB (snd (conditionallyApplyUpdate betaPlatform betaBody sampleWorld)) = liveDB sampleWorld \<and>
   files (snd (conditionallyApplyUpdate betaPlatform betaBody sampleWorld)) = files sampleWorld \<and>
   requests (snd (conditionallyApplyUpdate betaPlatform betaBody sampleWorld))
     = requests sampleWorld \<and>
   xhrs (snd (conditionallyApplyUpdate betaPlatform betaBody sampleWorld)) = xhrs sampleWorld \<and>
   sigChecks (snd (conditionallyApplyUpdate betaPlatform betaBody sampleWorld))
     = sigChecks sampleWorld"
  using wrong_branch_rejected [of betaPlatform betaBody betaObj sampleWorld "''stable''"]
  by (simp add: manifestPlatform_def samplePlatform_def sampleWorld_def samplePrefs_def
        manifestObj_def getProp_def pref_names betaBody_def betaObj_def betaPlatform_def
        sampleSource_def checkVersionRequirements_fst
        dottedCompare_def parseNat_def isDigit_def slice_js_def relIndex_def Let_def)

text \<open>
  Claim C9. For a manifest that the version gate does not accept, or whose branch is not
  the configured one, \<open>conditionallyApplyUpdate\<close> issues no request (none to the
  signature URL in particular) and never calls the signature verifier.
\<close>

theorem signature_fetched_only_after_gates:
  assumes "JSON_parse E update = Some updateObj"
    and "prefs w VERSION_PREF = Some extVersion"
    and "prefs w RULESET_VERSION_PREF = Some rulesetVersion"
    and "prefs w BRANCH_PREF = Some extBranch"
    and "getProp updateObj ''version'' = Inr version"
    and "fst (checkVersionRequirements E extVersion rulesetVersion version w) \<noteq> Inr True \<or>
         getProp updateObj ''branch'' \<noteq> Inr (JStr extBranch)"
  shows "requests (snd (conditionallyApplyUpdate E update w)) = requests w \<and>
         sigChecks (snd (conditionallyApplyUpdate E update w)) = sigChecks w"
  using conditionallyApplyUpdate_cases [of E update w] assms by auto

text \<open>
  The theorem at the candidate \<open>1.3.0\<close>, which the version gate rejects on an
  installation of extension version \<open>1.2.3\<close>.
\<close>

theorem signature_fetched_only_after_gates_witness:
  "(JSON_parse otherReleasePlatform otherReleaseBody = Some otherReleaseObj \<and>
    prefs sampleWorld VERSION_PREF = Some ''1.2.3'' \<and>
    prefs sampleWorld RULESET_VERSION_PREF = Some ''1.2.3.0'' \<and>
    prefs sampleWorld BRANCH_PREF = Some ''stable'' \<and>
    getProp otherReleaseObj ''version'' = Inr (JStr ''1.3.0'') \<and>
    fst (checkVersionRequirements otherReleasePlatform ''1.2.3'' ''1.2.3.0'' (JStr ''1.3.0'')
           sampleWorld) = Inr False) \<and>
   requests (snd (conditionallyApplyUpdate otherReleasePlatform otherReleaseBody sampleWorld))
     = requests sampleWorld \<and>
   sigChecks (snd (conditionallyApplyUpdate otherReleasePlatform otherReleaseBody sampleWorld))
     = sigChecks sampleWorld"
  using signature_fetched_only_after_gates [of otherReleasePlatform otherReleaseBody
      otherReleaseObj sampleWorld "''1.2.3''" "''1.2.3.0''" "''stable''" "JStr ''1.3.0''"]
  by (simp add: manifestPlatform_def samplePlatform_def sampleWorld_def samplePrefs_def
        manifestObj_def getProp_def pref_names otherReleaseBody_def otherReleaseObj_def
        otherReleasePlatform_def sampleSource_def checkVersionRequirements_fst
        dottedCompare_def parseNat_def isDigit_def slice_js_def relIndex_def Let_def)

subsection \<open>Manifests that do not parse or lack fields\<close>

text \<open>
  Claim C6, as stated, at a body that is not JSON: the \<open>SyntaxError\<close> of \<open>JSON.parse\<close>
  leaves \<open>conditionallyApplyUpdate\<close> as an exception. The file has no handler for it.
\<close>

theorem unparsable_manifest_raises:
  "fst (conditionallyApplyUpdate unparsablePlatform ''not json'' sampleWorld) = Inl SyntaxError"
  by (simp add: conditionallyApplyUpdate_def samplePlatform_def unparsablePlatform_def Let_def)

text \<open>
  Claim C6, amended. The file does not validate the manifest and catches no exception.
  \<^item> On a body that does not parse, the \<open>SyntaxError\<close> escapes
    \<open>conditionallyApplyUpdate\<close>; the log holds the three entries written before the
    parse and no entry about the failure.
  \<^item> On an object without \<open>version\<close>, a \<open>TypeError\<close> escapes (the preferences being
    set).
  \<^item> In both cases no request is issued and the files and the live database are
    unchanged.
  \<^item> The fields \<open>source\<close>, \<open>hashfn\<close> and \<open>hash\<close> are not looked at before the
    signature request: an object that passes the version and branch gates reaches it,
    whatever else it holds.
\<close>

theorem malformed_manifest_not_handled:
  "(JSON_parse E update = None \<longrightarrow>
      fst (conditionallyApplyUpdate E update w) = Inl SyntaxError \<and>
      logged (snd (conditionallyApplyUpdate E update w)) =
        logged w @ [(INFO, ''Got update data:''), (INFO, update),
          (INFO, charCodeAtStr update (int (length update) - 3) @
                 charCodeAtStr update (int (length update) - 2) @
                 charCodeAtStr update (int (length update) - 1))] \<and>
      liveDB (snd (conditionallyApplyUpdate E update w)) = liveDB w \<and>
      files (snd (conditionallyApplyUpdate E update w)) = files w \<and>
      requests (snd (conditionallyApplyUpdate E update w)) = requests w \<and>
      xhrs (snd (conditionallyApplyUpdate E update w)) = xhrs w) \<and>
   (JSON_parse E update = Some (JObj kvs) \<and> map_of kvs ''version'' = None \<and>
    prefs w VERSION_PREF = Some ev \<and> prefs w BRANCH_PREF = Some eb \<and>
    prefs w RULESET_VERSION_PREF = Some rv \<longrightarrow>
      fst (conditionallyApplyUpdate E update w) = Inl TypeError \<and>
      liveDB (snd (conditionallyApplyUpdate E update w)) = liveDB w \<and>
      files (snd (conditionallyApplyUpdate E update w)) = files w \<and>
      requests (snd (conditionallyApplyUpdate E update w)) = requests w \<and>
      xhrs (snd (conditionallyApplyUpdate E update w)) = xhrs w) \<and>
   (JSON_parse E update = Some obj \<and>
    prefs w VERSION_PREF = Some ev \<and> prefs w BRANCH_PREF = Some eb \<and>
    prefs w RULESET_VERSION_PREF = Some rv \<and> prefs w RSUPDATE_SIG_URL_PREF = Some s \<and>
    getProp obj ''version'' = Inr v \<and>
    fst (checkVersionRequirements E ev rv v w) = Inr True \<and>
    getProp obj ''branch'' = Inr (JStr eb) \<longrightarrow>
      requests (snd (conditionallyApplyUpdate E update w)) =
        requests w @ [(MAX_RSUPDATE_FETCHES, ''GET'', s)])"
proof (intro conjI impI)
  assume "JSON_parse E update = None"
  then show "fst (conditionallyApplyUpdate E update w) = Inl SyntaxError"
    and "logged (snd (conditionallyApplyUpdate E update w)) =
        logged w @ [(INFO, ''Got update data:''), (INFO, update),
          (INFO, charCodeAtStr update (int (length update) - 3) @
                 charCodeAtStr update (int (length update) - 2) @
                 charCodeAtStr update (int (length update) - 1))]"
    and "liveDB (snd (conditionallyApplyUpdate E update w)) = liveDB w"
    and "files (snd (conditionallyApplyUpdate E update w)) = files w"
    and "requests (snd (conditionallyApplyUpdate E update w)) = requests w"
    and "xhrs (snd (conditionallyApplyUpdate E update w)) = xhrs w"
    by (simp_all add: conditionallyApplyUpdate_def Let_def)
next
  assume a: "JSON_parse E update = Some (JObj kvs) \<and> map_of kvs ''version'' = None \<and>
    prefs w VERSION_PREF = Some ev \<and> prefs w BRANCH_PREF = Some eb \<and>
    prefs w RULESET_VERSION_PREF = Some rv"
  then show "fst (conditionallyApplyUpdate E update w) = Inl TypeError"
    and "liveDB (snd (conditionallyApplyUpdate E update w)) = liveDB w"
    and "files (snd (conditionallyApplyUpdate E update w)) = files w"
    and "requests (snd (conditionallyApplyUpdate E update w)) = requests w"
    and "xhrs (snd (conditionallyApplyUpdate E update w)) = xhrs w"
    by (simp_all add: conditionallyApplyUpdate_def Let_def getCharPref_def getProp_def
          checkVersionRequirements_def versionPrefix_def)
next
  assume a: "JSON_parse E update = Some obj \<and>
    prefs w VERSION_PREF = Some ev \<and> prefs w BRANCH_PREF = Some eb \<and>
    prefs w RULESET_VERSION_PREF = Some rv \<and> prefs w RSUPDATE_SIG_URL_PREF = Some s \<and>
    getProp obj ''version'' = Inr v \<and>
    fst (checkVersionRequirements E ev rv v w) = Inr True \<and>
    getProp obj ''branch'' = Inr (JStr eb)"
  from conditionallyApplyUpdate_cases [of E update w] a
  obtain w' where "conditionallyApplyUpdate E update w = requestSignature E update obj w'"
    and "prefs w' = prefs w" and "requests w' = requests w"
    by auto
  then show "requests (snd (conditionallyApplyUpdate E update w)) =
        requests w @ [(MAX_RSUPDATE_FETCHES, ''GET'', s)]"
    using a by (simp add: requestSignature_new_requests)
qed

text \<open>
  The theorem at a body that is not JSON, at the empty object, and at the good manifest.
\<close>

theorem malformed_manifest_not_handled_witness:
  "(JSON_parse unparsablePlatform ''not json'' = None \<and>
    fst (conditionallyApplyUpdate unparsablePlatform ''not json'' sampleWorld) = Inl SyntaxError \<and>
    liveDB (snd (conditionallyApplyUpdate unparsablePlatform ''not json'' sampleWorld))
      = liveDB sampleWorld) \<and>
   (JSON_parse emptyObjectPlatform ''{}'' = Some (JObj []) \<and>
    fst (conditionallyApplyUpdate emptyObjectPlatform ''{}'' sampleWorld) = Inl TypeError \<and>
    liveDB (snd (conditionallyApplyUpdate emptyObjectPlatform ''{}'' sampleWorld))
      = liveDB sampleWorld) \<and>
   (JSON_parse goodPlatform goodBody
      = Some (manifestObj ''1.2.3.5'' ''stable'' sampleSource ''sha256'' ''04abcd'') \<and>
    requests (snd (conditionallyApplyUpdate goodPlatform goodBody sampleWorld)) =
      requests sampleWorld @ [(MAX_RSUPDATE_FETCHES, ''GET'', sampleSigURL)])"
  using malformed_manifest_not_handled [where E = unparsablePlatform and update = "''not json''"
          and w = sampleWorld]
        malformed_manifest_not_handled [where E = emptyObjectPlatform and update = "''{}''"
          and w = sampleWorld and kvs = "[]" and ev = "''1.2.3''" and eb = "''stable''"
          and rv = "''1.2.3.0''"]
        malformed_manifest_not_handled [where E = goodPlatform and update = goodBody
          and w = sampleWorld and ev = "''1.2.3''" and eb = "''stable''"
          and rv = "''1.2.3.0''" and s = sampleSigURL and v = "JStr ''1.2.3.5''"
          and obj = "manifestObj ''1.2.3.5'' ''stable'' sampleSource ''sha256'' ''04abcd''"]
  by (simp add: manifestPlatform_def samplePlatform_def sampleWorld_def samplePrefs_def
        manifestObj_def getProp_def pref_names unparsablePlatform_def emptyObjectPlatform_def
        goodPlatform_def goodBody_def sampleSource_def checkVersionRequirements_fst
        dottedCompare_def parseNat_def isDigit_def slice_js_def relIndex_def Let_def)

subsection \<open>The installed database version\<close>

text \<open>
  Nothing the updater does changes what the two gates decide: a manifest for which
  \<open>conditionallyApplyUpdate\<close> got past them (it requested the signature) gets past
  them again from any world with the same preferences.
\<close>

lemma gates_pass_again:
  assumes "requests (snd (conditionallyApplyUpdate E u w)) \<noteq> requests w"
    and "prefs w1 = prefs w"
  shows "requests (snd (conditionallyApplyUpdate E u w1)) \<noteq> requests w1"
proof -
  from conditionallyApplyUpdate_cases [of E u w] assms(1)
  obtain obj w' ev eb rv v where
        run: "conditionallyApplyUpdate E u w = requestSignature E u obj w'"
    and w': "prefs w' = prefs w" "requests w' = requests w"
    and gates: "JSON_parse E u = Some obj" "prefs w VERSION_PREF = Some ev"
      "prefs w BRANCH_PREF = Some eb" "prefs w RULESET_VERSION_PREF = Some rv"
      "getProp obj ''version'' = Inr v" "fst (checkVersionRequirements E ev rv v w) = Inr True"
      "getProp obj ''branch'' = Inr (JStr eb)"
    by auto
  from assms(1) run w' obtain s where s: "prefs w RSUPDATE_SIG_URL_PREF = Some s"
    by (cases "prefs w RSUPDATE_SIG_URL_PREF") (simp_all add: requestSignature_new_requests)
  have "fst (checkVersionRequirements E ev rv v w1) = Inr True"
    using gates(6) checkVersionRequirements_fst_indep [of E ev rv v w1 w] by simp
  with gates assms(2) have pass: "\<exists>obj ev eb rv v. JSON_parse E u = Some obj \<and>
         prefs w1 VERSION_PREF = Some ev \<and> prefs w1 BRANCH_PREF = Some eb \<and>
         prefs w1 RULESET_VERSION_PREF = Some rv \<and> getProp obj ''version'' = Inr v \<and>
         fst (checkVersionRequirements E ev rv v w1) = Inr True \<and>
         getProp obj ''branch'' = Inr (JStr eb)"
    by auto
  from conditionallyApplyUpdate_cases [of E u w1] pass
  obtain obj1 w1' where "conditionallyApplyUpdate E u w1 = requestSignature E u obj1 w1'"
    and "prefs w1' = prefs w1" "requests w1' = requests w1"
    by blast
  then show ?thesis using s assms(2) by (simp add: requestSignature_new_requests)
qed

text \<open>
  Claim C7, on the code. \<open>applyNewRuleset\<close> never completes: every path through it ends
  in an exception, before the staged file is removed and before \<open>HTTPSRules.init\<close>; and
  no run of \<open>fetchUpdate\<close> writes a preference. At the good manifest, where every gate
  passes, the signature verifies and the digest matches, the run ends in the exception of
  the \<open>insert into targets\<close> statement: both tables of the live database are dropped,
  the staged file is left, the index is not reinitialised, the ruleset-version preference
  still holds \<open>1.2.3.0\<close> and not the candidate \<open>1.2.3.5\<close>, and a second run on the same
  manifest passes the version gate again and requests the signature again.
\<close>

theorem apply_never_completes:
  "(\<exists>e. fst (applyNewRuleset E w) = Inl e) \<and>
   reinits (snd (applyNewRuleset E w)) = reinits w \<and>
   files (snd (applyNewRuleset E w)) = files w \<and>
   prefs (snd (fetchUpdate E w)) = prefs w \<and>
   fst (fetchUpdate goodPlatform sampleWorld) = Inl StorageError \<and>
   liveDB sampleWorld = sampleOldDB \<and>
   liveDB afterFirstRun = \<lparr>targets = None, rulesets = None\<rparr> \<and>
   files afterFirstRun TMP_RULESET_DBFILE_PATH = Some sampleArtifact \<and>
   reinits afterFirstRun = 0 \<and>
   prefs afterFirstRun RULESET_VERSION_PREF = Some ''1.2.3.0'' \<and>
   requests afterFirstRun = [(6, ''GET'', sampleManifestURL), (6, ''GET'', sampleSigURL)] \<and>
   requests (snd (fetchUpdate goodPlatform afterFirstRun)) =
     requests afterFirstRun @ [(6, ''GET'', sampleManifestURL), (6, ''GET'', sampleSigURL)]"
proof -
  have "\<exists>e. fst (applyNewRuleset E w) = Inl e" by (rule applyNewRuleset_raises)
  moreover have "reinits (snd (applyNewRuleset E w)) = reinits w"
    by (simp add: applyNewRuleset_def Let_def split: option.splits)
  moreover have "files (snd (applyNewRuleset E w)) = files w" by (rule applyNewRuleset_files)
  moreover have "prefs (snd (fetchUpdate E w)) = prefs w" by (rule fetchUpdate_prefs)
  moreover have "fst (fetchUpdate goodPlatform sampleWorld) = Inl StorageError"
    by (simp add: pipeline_defs sample_defs goodPlatform_def sampleSource_def)
  moreover have "liveDB sampleWorld = sampleOldDB \<and>
   liveDB afterFirstRun = \<lparr>targets = None, rulesets = None\<rparr> \<and>
   files afterFirstRun TMP_RULESET_DBFILE_PATH = Some sampleArtifact \<and>
   reinits afterFirstRun = 0 \<and>
   prefs afterFirstRun RULESET_VERSION_PREF = Some ''1.2.3.0'' \<and>
   requests afterFirstRun = [(6, ''GET'', sampleManifestURL), (6, ''GET'', sampleSigURL)] \<and>
   requests (snd (fetchUpdate goodPlatform afterFirstRun)) =
     requests afterFirstRun @ [(6, ''GET'', sampleManifestURL), (6, ''GET'', sampleSigURL)]"
    by (simp add: afterFirstRun_def pipeline_defs sample_defs goodPlatform_def sampleSource_def)
  ultimately show ?thesis by blast
qed

subsection \<open>The digest of the artifact\<close>

text \<open>
  Claim C1, on the code. \<open>fetchRulesetDBFile\<close> does not depend on its \<open>hash\<close> argument.
  At a manifest whose \<open>hash\<close> is \<open>00ff00\<close> while the digest computed from the staged
  file is \<open>04abcd\<close>, the run goes on to \<open>applyNewRuleset\<close>: the tables of the live
  database are dropped and the staged file is still there afterwards.
\<close>

theorem digest_mismatch_still_applied:
  "fetchRulesetDBFile E url hashfn hash w = fetchRulesetDBFile E url hashfn hash' w \<and>
   getProp (manifestObj ''1.2.3.5'' ''stable'' sampleSource ''sha256'' ''00ff00'') ''hash''
     = Inr (JStr ''00ff00'') \<and>
   hashBinaryFile mismatchPlatform (files (snd (fetchUpdate mismatchPlatform sampleWorld)))
     TMP_RULESET_DBFILE_PATH 4 (JStr ''sha256'') = Inr (Some ''04abcd'') \<and>
   liveDB sampleWorld = sampleOldDB \<and>
   liveDB (snd (fetchUpdate mismatchPlatform sampleWorld)) = \<lparr>targets = None, rulesets = None\<rparr> \<and>
   files (snd (fetchUpdate mismatchPlatform sampleWorld)) TMP_RULESET_DBFILE_PATH
     = Some sampleArtifact"
proof -
  have h: "xhr_onload E hashfn hash = xhr_onload E hashfn hash'"
    by (intro ext) (simp add: xhr_onload_def)
  have "fetchRulesetDBFile E url hashfn hash w = fetchRulesetDBFile E url hashfn hash' w"
    unfolding fetchRulesetDBFile_def h by (rule refl)
  moreover have "getProp (manifestObj ''1.2.3.5'' ''stable'' sampleSource ''sha256'' ''00ff00'')
      ''hash'' = Inr (JStr ''00ff00'')"
    by (simp add: getProp_def manifestObj_def)
  moreover have "files (snd (fetchUpdate mismatchPlatform sampleWorld)) TMP_RULESET_DBFILE_PATH
     = Some sampleArtifact"
    by (simp add: pipeline_defs sample_defs mismatchPlatform_def sampleSource_def)
  moreover have "hashBinaryFile mismatchPlatform (\<lambda>p. Some sampleArtifact) p 4 (JStr ''sha256'')
     = Inr (Some ''04abcd'')" for p
    by (simp add: hashBinaryFile_def hashInit_def sample_defs mismatchPlatform_def
    sampleSource_def toHexStr_def
        sliceFrom_def toString16.simps hexDigit_def)
  moreover have "liveDB (snd (fetchUpdate mismatchPlatform sampleWorld))
     = \<lparr>targets = None, rulesets = None\<rparr>"
    by (simp add: pipeline_defs sample_defs mismatchPlatform_def sampleSource_def)
  moreover have "liveDB sampleWorld = sampleOldDB"
    by (simp add: sampleWorld_def)
  ultimately show ?thesis
    by (simp add: hashBinaryFile_def hashInit_def)
qed

text \<open>
  Claim C4, on the code. At a manifest naming the digest algorithm \<open>sha3\<close>,
  \<open>hashBinaryFile\<close> returns \<open>null\<close>, the handler logs \<open>dbhash = null\<close> and goes on to
  \<open>applyNewRuleset\<close>: the tables of the live database are dropped.
\<close>

theorem unsupported_digest_still_applied:
  "hashBinaryFile sha3Platform (files (snd (fetchUpdate sha3Platform sampleWorld)))
     TMP_RULESET_DBFILE_PATH 4 (JStr ''sha3'') = Inr None \<and>
   (INFO, ''dbhash = null'') \<in> set (logged (snd (fetchUpdate sha3Platform sampleWorld))) \<and>
   liveDB sampleWorld = sampleOldDB \<and>
   liveDB (snd (fetchUpdate sha3Platform sampleWorld)) = \<lparr>targets = None, rulesets = None\<rparr>"
  by (simp add: pipeline_defs sample_defs sha3Platform_def sampleSource_def)

subsection \<open>The scheme of the artifact URL\<close>

text \<open>
  Claim C5, on the code. At a manifest whose \<open>source\<close> is an \<open>http:\<close> URL the artifact
  is requested from that URL, staged, and \<open>applyNewRuleset\<close> runs: the tables of the
  live database are dropped.
\<close>

theorem plain_http_source_fetched:
  "xhrs (snd (fetchUpdate httpPlatform sampleWorld)) =
     [(''GET'', ''http://www.example.org/rulesets.sqlite'')] \<and>
   files (snd (fetchUpdate httpPlatform sampleWorld)) TMP_RULESET_DBFILE_PATH
     = Some sampleArtifact \<and>
   liveDB sampleWorld = sampleOldDB \<and>
   liveDB (snd (fetchUpdate httpPlatform sampleWorld)) = \<lparr>targets = None, rulesets = None\<rparr>"
  by (simp add: pipeline_defs sample_defs httpPlatform_def sampleSource_def)

end
